theory Spec2Isabelle
  imports Main "HOL-Library.AList"
begin

section \<open>Values exchanged with the libraries\<close>

text \<open>
  The program is one file, \<open>index.js\<close>: an Express application over three Sequelize
  models, with \<open>jsonwebtoken\<close> for bearer tokens and \<open>bcrypt\<close> for passwords. The
  handlers are embedded as functions over an explicit database state; each library call
  is embedded by the documented behaviour the handlers rely on.

  JSON payloads sent with \<open>res.json\<close> / \<open>res.send\<close>. An object keeps its fields in
  order, as a JavaScript object does.
\<close>

datatype json =
    JNull
  | JNum int
  | JStr string
  | JArr "json list"
  | JObj "(string \<times> json) list"

text \<open>A thrown JavaScript error: its \<open>name\<close> and its \<open>message\<close>.\<close>

datatype jserror = JsError (err_name: string) (err_message: string)

text \<open>
  The claims object handed to \<open>jwt.sign\<close> and the payload \<open>jwt.verify\<close> returns: a
  JavaScript object with numeric fields (\<open>userId\<close>, \<open>iat\<close>, \<open>exp\<close>, \<open>nbf\<close>), fields in
  insertion order. \<open>map_of\<close> reads a field (\<open>None\<close> is \<open>undefined\<close>),
  \<open>AList.update\<close> assigns one.
\<close>

type_synonym jsobject = "(string \<times> int) list"

section \<open>The token service\<close>

text \<open>
  A signed token, symbolically: the key that produced the signature and the payload
  that was signed. The compact serialisation of \<open>jsonwebtoken\<close> (base64url, JSON,
  HMAC-SHA256) is not part of \<open>index.js\<close>; it is a parameter of the model: \<open>jws_encode\<close>
  writes a signed token as the string sent to the client, \<open>jws_decode\<close> reads a string
  back, \<open>Inl msg\<close> being the message of the \<open>JsonWebTokenError\<close> raised for a string
  that is no token.
\<close>

datatype jws = JWS (signing_key: string) (payload: jsobject)

record env =
  jwtSecret :: string
  jws_encode :: "jws \<Rightarrow> string"
  jws_decode :: "string \<Rightarrow> string + jws"

text \<open>
  \<open>jwt.sign(payload, secretOrPrivateKey, { expiresIn })\<close> at clock time \<open>now\<close> (seconds):
  refuses an empty key and a payload that already has \<open>exp\<close>; copies the payload, sets
  \<open>iat\<close> to \<open>payload.iat || now\<close> and \<open>exp\<close> to that timestamp plus the lifetime.
\<close>

definition jwt_sign :: "(jws \<Rightarrow> string) \<Rightarrow> int \<Rightarrow> jsobject \<Rightarrow> string \<Rightarrow> int \<Rightarrow> jserror + string" where
  "jwt_sign enc now data secretOrPrivateKey expiresIn =
     (if secretOrPrivateKey = [] then
        Inl (JsError ''Error'' ''secretOrPrivateKey must have a value'')
      else if map_of data ''exp'' \<noteq> None then
        Inl (JsError ''Error''
          ''Bad \"options.expiresIn\" option the payload already has an \"exp\" property.'')
      else
        let timestamp = (case map_of data ''iat'' of
                           None \<Rightarrow> now
                         | Some t \<Rightarrow> if t = 0 then now else t);
            signed = AList.update ''exp'' (timestamp + expiresIn)
                       (AList.update ''iat'' timestamp data)
        in Inr (enc (JWS secretOrPrivateKey signed)))"

text \<open>
  \<open>jwt.verify(token, secretOrPublicKey)\<close> at clock time \<open>now\<close>: a string that does not
  decode, a missing key, a signature made with another key, a \<open>nbf\<close> in the future and an
  \<open>exp\<close> that is reached each throw; otherwise the decoded payload is returned.
\<close>

definition jwt_verify :: "(string \<Rightarrow> string + jws) \<Rightarrow> int \<Rightarrow> string \<Rightarrow> string \<Rightarrow> jserror + jsobject" where
  "jwt_verify dec now token secretOrPublicKey =
     (case dec token of
        Inl msg \<Rightarrow> Inl (JsError ''JsonWebTokenError'' msg)
      | Inr j \<Rightarrow>
          if secretOrPublicKey = [] then
            Inl (JsError ''JsonWebTokenError'' ''secret or public key must be provided'')
          else if signing_key j \<noteq> secretOrPublicKey then
            Inl (JsError ''JsonWebTokenError'' ''invalid signature'')
          else if (case map_of (payload j) ''nbf'' of None \<Rightarrow> False | Some n \<Rightarrow> now < n) then
            Inl (JsError ''NotBeforeError'' ''jwt not active'')
          else if (case map_of (payload j) ''exp'' of None \<Rightarrow> False | Some e \<Rightarrow> e \<le> now) then
            Inl (JsError ''TokenExpiredError'' ''jwt expired'')
          else Inr (payload j))"

text \<open>The lifetime \<open>'2h'\<close> of \<open>toJWT\<close>, in seconds.\<close>

definition expiresIn_2h :: int where
  "expiresIn_2h = 2 * 60 * 60"

text \<open>\<open>toJWT\<close> and \<open>toData\<close> (lines 27-33), at clock time \<open>now\<close>.\<close>

definition toJWT :: "env \<Rightarrow> int \<Rightarrow> jsobject \<Rightarrow> jserror + string" where
  "toJWT e now data = jwt_sign (jws_encode e) now data (jwtSecret e) expiresIn_2h"

definition toData :: "env \<Rightarrow> int \<Rightarrow> string \<Rightarrow> jserror + jsobject" where
  "toData e now token = jwt_verify (jws_decode e) now token (jwtSecret e)"

section \<open>The credential store\<close>

text \<open>
  A bcrypt hash, symbolically: the cost, the salt and the input that was hashed. bcrypt
  reads at most 72 bytes of its input. \<open>hashSync\<close> draws its salt at random; the salt is
  an argument here. \<open>compareSync\<close> hashes the candidate with the salt and cost stored in
  the hash and compares.
\<close>

datatype bcrypt_hash = BcryptHash (hash_rounds: nat) (hash_salt: string) (hash_input: string)

definition hashSync :: "string \<Rightarrow> string \<Rightarrow> nat \<Rightarrow> bcrypt_hash" where
  "hashSync salt data rounds = BcryptHash rounds salt (take 72 data)"

definition compareSync :: "string \<Rightarrow> bcrypt_hash \<Rightarrow> bool" where
  "compareSync data encrypted = (hashSync (hash_salt encrypted) data (hash_rounds encrypted) = encrypted)"

section \<open>The store\<close>

text \<open>
  The three Sequelize models (lines 37-60). \<open>User.hasMany(Playlist)\<close> adds the nullable
  foreign key \<open>userId\<close> to a playlist, \<open>Playlist.hasMany(Song)\<close> the nullable foreign key
  \<open>playlistId\<close> to a song. Primary keys are serial: each table has its sequence.
\<close>

record user =
  user_id :: int
  user_email :: string
  user_password :: bcrypt_hash

record playlist =
  playlist_id :: int
  playlist_name :: string
  playlist_userId :: "int option"

record song =
  song_id :: int
  song_title :: string
  song_artist :: string
  song_album :: string
  song_playlistId :: "int option"

record db =
  users :: "user list"
  playlists :: "playlist list"
  songs :: "song list"
  user_seq :: int
  playlist_seq :: int
  song_seq :: int

text \<open>
  Sequelize writes a string of a query into the SQL text as a quoted literal, and for
  PostgreSQL it replaces every NUL character by a backslash and a zero: that is the text
  which is stored, returned and compared.
\<close>

definition escape_text :: "string \<Rightarrow> string" where
  "escape_text s = concat (map (\<lambda>c. if c = CHR 0x00 then [CHR 0x5C, CHR ''0''] else [c]) s)"

text \<open>
  The route parameter \<open>:id\<close> reaches the query as it stands in the URL, a string, and is
  compared with the \<open>INTEGER\<close> key of the table. PostgreSQL reads the literal as a 32-bit
  integer: blanks, an optional sign, decimal digits, blanks. A literal that is no such
  number, or whose value is out of range, makes the query fail; \<open>Inl\<close> is the message of
  the \<open>SequelizeDatabaseError\<close> the query is then rejected with.
\<close>

definition is_blank :: "char \<Rightarrow> bool" where
  "is_blank c \<longleftrightarrow> c \<in> set [CHR '' '', CHR 0x09, CHR 0x0A, CHR 0x0B, CHR 0x0C, CHR 0x0D]"

definition digit_val :: "char \<Rightarrow> int option" where
  "digit_val c =
     map_of [(CHR ''0'', 0), (CHR ''1'', 1), (CHR ''2'', 2), (CHR ''3'', 3), (CHR ''4'', 4),
             (CHR ''5'', 5), (CHR ''6'', 6), (CHR ''7'', 7), (CHR ''8'', 8), (CHR ''9'', 9)] c"

fun decimal :: "int \<Rightarrow> string \<Rightarrow> int option" where
  "decimal acc [] = Some acc"
| "decimal acc (c # cs) =
     (case digit_val c of
        None \<Rightarrow> None
      | Some v \<Rightarrow> decimal (10 * acc + v) cs)"

definition int4in :: "string \<Rightarrow> string + int" where
  "int4in s =
     (let invalid = Inl (''invalid input syntax for type integer: \"'' @ s @ ''\"'');
          trimmed = rev (dropWhile is_blank (rev (dropWhile is_blank s)));
          (negative, digits) =
            (case trimmed of
               c # cs \<Rightarrow> if c = CHR ''-'' then (True, cs)
                         else if c = CHR ''+'' then (False, cs)
                         else (False, trimmed)
             | [] \<Rightarrow> (False, []))
      in if digits = [] then invalid
         else (case decimal 0 digits of
                 None \<Rightarrow> invalid
               | Some n \<Rightarrow>
                   let v = (if negative then - n else n)
                   in if - 2147483648 \<le> v \<and> v \<le> 2147483647 then Inr v
                      else Inl (''value \"'' @ s @ ''\" is out of range for type integer'')))"

text \<open>The key the database reads a route parameter as: the literal is escaped like any string.\<close>

definition id_key :: "string \<Rightarrow> string + int" where
  "id_key pid = int4in (escape_text pid)"

text \<open>
  The queries the handlers issue. Rows are kept in insertion order; \<open>findOne\<close> and
  \<open>findByPk\<close> return the first row that matches, \<open>findByPk(undefined)\<close> returns null.
  A query that fails is \<open>Inl\<close> of its error.
\<close>

definition User_findByPk :: "db \<Rightarrow> int option \<Rightarrow> user option" where
  "User_findByPk d pk = (case pk of None \<Rightarrow> None | Some k \<Rightarrow> find (\<lambda>u. user_id u = k) (users d))"

definition User_findOne_email :: "db \<Rightarrow> string \<Rightarrow> user option" where
  "User_findOne_email d e = find (\<lambda>u. user_email u = escape_text e) (users d)"

definition User_create :: "db \<Rightarrow> string \<Rightarrow> bcrypt_hash \<Rightarrow> user \<times> db" where
  "User_create d e h =
     (let u = \<lparr>user_id = user_seq d, user_email = escape_text e, user_password = h\<rparr>
      in (u, d\<lparr>users := users d @ [u], user_seq := user_seq d + 1\<rparr>))"

definition Playlist_findAll :: "db \<Rightarrow> int \<Rightarrow> playlist list" where
  "Playlist_findAll d uid = filter (\<lambda>p. playlist_userId p = Some uid) (playlists d)"

definition Playlist_findOne :: "db \<Rightarrow> int \<Rightarrow> string \<Rightarrow> jserror + playlist option" where
  "Playlist_findOne d uid pid =
     (case id_key pid of
        Inl msg \<Rightarrow> Inl (JsError ''SequelizeDatabaseError'' msg)
      | Inr k \<Rightarrow>
          Inr (find (\<lambda>p. playlist_userId p = Some uid \<and> playlist_id p = k) (playlists d)))"

definition Playlist_create :: "db \<Rightarrow> string \<Rightarrow> int \<Rightarrow> playlist \<times> db" where
  "Playlist_create d n uid =
     (let p = \<lparr>playlist_id = playlist_seq d, playlist_name = escape_text n,
                playlist_userId = Some uid\<rparr>
      in (p, d\<lparr>playlists := playlists d @ [p], playlist_seq := playlist_seq d + 1\<rparr>))"

text \<open>
  \<open>Playlist.destroy({ where: { userId, id } })\<close> returns the number of rows deleted. The
  foreign key of \<open>Playlist.hasMany(Song)\<close> is declared \<open>ON DELETE SET NULL\<close> (Sequelize's
  default for \<open>hasMany\<close>): the songs of a deleted playlist stay, detached.
\<close>

definition Playlist_destroy :: "db \<Rightarrow> int \<Rightarrow> string \<Rightarrow> jserror + nat \<times> db" where
  "Playlist_destroy d uid pid =
     (case id_key pid of
        Inl msg \<Rightarrow> Inl (JsError ''SequelizeDatabaseError'' msg)
      | Inr k \<Rightarrow>
          let hit = (\<lambda>p. playlist_userId p = Some uid \<and> playlist_id p = k);
              gone = filter hit (playlists d)
          in Inr (length gone,
                  d\<lparr>playlists := filter (\<lambda>p. \<not> hit p) (playlists d),
                    songs := map (\<lambda>s. if song_playlistId s \<in> Some ` playlist_id ` set gone
                                       then s\<lparr>song_playlistId := None\<rparr> else s) (songs d)\<rparr>))"

definition Song_findAll_playlist :: "db \<Rightarrow> int \<Rightarrow> song list" where
  "Song_findAll_playlist d pid = filter (\<lambda>s. song_playlistId s = Some pid) (songs d)"

definition Song_create :: "db \<Rightarrow> string \<Rightarrow> string \<Rightarrow> string \<Rightarrow> int \<Rightarrow> song \<times> db" where
  "Song_create d t ar al pid =
     (let s = \<lparr>song_id = song_seq d, song_title = escape_text t,
                song_artist = escape_text ar, song_album = escape_text al,
                song_playlistId = Some pid\<rparr>
      in (s, d\<lparr>songs := songs d @ [s], song_seq := song_seq d + 1\<rparr>))"

text \<open>
  What the primary keys guarantee: every key in a table is below the table's sequence,
  and no key occurs twice.
\<close>

definition wf_db :: "db \<Rightarrow> bool" where
  "wf_db d \<longleftrightarrow>
     (\<forall>u \<in> set (users d). user_id u < user_seq d) \<and> distinct (map user_id (users d)) \<and>
     (\<forall>p \<in> set (playlists d). playlist_id p < playlist_seq d) \<and>
     distinct (map playlist_id (playlists d)) \<and>
     (\<forall>s \<in> set (songs d). song_id s < song_seq d) \<and> distinct (map song_id (songs d))"

section \<open>Requests and responses\<close>

text \<open>
  The parts of an Express request the application reads: the \<open>Authorization\<close> header
  (\<open>None\<close> when absent), the route parameter \<open>:id\<close>, a string, and the fields of the
  JSON body, the strings the interface declares.
\<close>

record request =
  authorization :: "string option"
  params_id :: string
  body_name :: string
  body_title :: string
  body_artist :: string
  body_album :: string
  body_email :: string
  body_password :: string
  body_password_confirmation :: string

datatype response = Response (status: nat) (body: json)

text \<open>
  How the middleware leaves a request: it answered itself, it called \<open>next(err)\<close>, or it
  set \<open>req.user\<close> and called \<open>next()\<close>.
\<close>

datatype auth_outcome =
    Responded response
  | NextError string
  | Authorized user

text \<open>
  How a route leaves a request: a response was sent, the chain stopped in Express's error
  handling with the value given to \<open>next\<close>, or the asynchronous handler threw: an
  \<open>await\<close> of a query that fails rejects the handler's promise, nothing catches it and no
  response is sent.
\<close>

datatype outcome =
    Sent response
  | ErrorHandler string
  | Rejected jserror

section \<open>The auth middleware\<close>

text \<open>
  JavaScript's \<open>s.split(' ')\<close>: the pieces between single spaces, empty pieces kept; the
  result is never empty.
\<close>

fun split_space :: "string \<Rightarrow> string list" where
  "split_space [] = [[]]"
| "split_space (c # cs) =
     (if c = CHR '' '' then [] # split_space cs
      else (case split_space cs of
              [] \<Rightarrow> [[c]]
            | w # ws \<Rightarrow> (c # w) # ws))"

definition unauthorized :: response where
  "unauthorized = Response 401 (JObj [(''error'', JStr ''Unauthorized'')])"

text \<open>
  \<open>auth\<close> (lines 73-100). \<open>req.headers.authorization && ...split(' ')\<close> is falsy for an
  absent and for an empty header; \<open>auth[0] === 'Bearer' && auth[1]\<close> asks for a first
  piece \<open>Bearer\<close> and a second piece that exists and is not empty. \<open>toData\<close> throwing is
  caught and answered with 400; a user that is not found goes to \<open>next\<close> as an error.
\<close>

definition auth :: "env \<Rightarrow> int \<Rightarrow> db \<Rightarrow> request \<Rightarrow> auth_outcome" where
  "auth e now d req =
     (case authorization req of
        None \<Rightarrow> Responded unauthorized
      | Some h \<Rightarrow>
          if h = [] then Responded unauthorized
          else (case split_space h of
                  a0 # a1 # _ \<Rightarrow>
                    if a0 = ''Bearer'' \<and> a1 \<noteq> [] then
                      (case toData e now a1 of
                         Inl error \<Rightarrow>
                           Responded (Response 400
                             (JObj [(''error'',
                                JStr (''Error '' @ err_name error @ '': '' @ err_message error))]))
                       | Inr data \<Rightarrow>
                           (case User_findByPk d (map_of data ''userId'') of
                              None \<Rightarrow> NextError ''User does not exist''
                            | Some user \<Rightarrow> Authorized user))
                    else Responded unauthorized
                | _ \<Rightarrow> Responded unauthorized))"

text \<open>
  A protected route, \<open>app.METHOD(path, auth, handler)\<close>: Express runs \<open>handler\<close> only when
  \<open>auth\<close> called \<open>next()\<close>, with the \<open>req.user\<close> it set.
\<close>

definition protected :: "env \<Rightarrow> int \<Rightarrow> (user \<Rightarrow> request \<Rightarrow> db \<Rightarrow> outcome \<times> db) \<Rightarrow> request \<Rightarrow> db \<Rightarrow> outcome \<times> db" where
  "protected e now handler req d =
     (case auth e now d req of
        Responded r \<Rightarrow> (Sent r, d)
      | NextError err \<Rightarrow> (ErrorHandler err, d)
      | Authorized user \<Rightarrow> handler user req d)"

section \<open>The playlist and song handlers\<close>

text \<open>The JSON of a row, restricted to the attributes a query selects.\<close>

definition json_opt :: "int option \<Rightarrow> json" where
  "json_opt v = (case v of None \<Rightarrow> JNull | Some n \<Rightarrow> JNum n)"

definition playlist_id_name :: "playlist \<Rightarrow> (string \<times> json) list" where
  "playlist_id_name p = [(''id'', JNum (playlist_id p)), (''name'', JStr (playlist_name p))]"

definition song_attributes :: "song \<Rightarrow> json" where
  "song_attributes s =
     JObj [(''id'', JNum (song_id s)), (''title'', JStr (song_title s)),
           (''album'', JStr (song_album s)), (''artist'', JStr (song_artist s))]"

definition playlist_json :: "playlist \<Rightarrow> json" where
  "playlist_json p =
     JObj [(''id'', JNum (playlist_id p)), (''name'', JStr (playlist_name p)),
           (''userId'', json_opt (playlist_userId p))]"

definition song_json :: "song \<Rightarrow> json" where
  "song_json s =
     JObj [(''id'', JNum (song_id s)), (''title'', JStr (song_title s)),
           (''artist'', JStr (song_artist s)), (''album'', JStr (song_album s)),
           (''playlistId'', json_opt (song_playlistId s))]"

definition not_found :: json where
  "not_found = JObj [(''error'', JStr ''Not found'')]"

text \<open>\<open>GET /playlists\<close> (lines 102-118).\<close>

definition get_playlists :: "user \<Rightarrow> request \<Rightarrow> db \<Rightarrow> outcome \<times> db" where
  "get_playlists req_user req d =
     (let found = Playlist_findAll d (user_id req_user)
      in (Sent (Response 200 (JArr (map (\<lambda>p. JObj (playlist_id_name p)) found))), d))"

text \<open>\<open>GET /playlists/:id\<close> (lines 120-142), the playlist with its songs.\<close>

definition get_playlist :: "user \<Rightarrow> request \<Rightarrow> db \<Rightarrow> outcome \<times> db" where
  "get_playlist req_user req d =
     (case Playlist_findOne d (user_id req_user) (params_id req) of
        Inl error \<Rightarrow> (Rejected error, d)
      | Inr None \<Rightarrow> (Sent (Response 404 not_found), d)
      | Inr (Some p) \<Rightarrow>
          (Sent (Response 200
             (JObj (playlist_id_name p @
                [(''songs'', JArr (map song_attributes (Song_findAll_playlist d (playlist_id p))))]))),
           d))"

text \<open>\<open>POST /playlists\<close> (lines 144-151).\<close>

definition post_playlists :: "user \<Rightarrow> request \<Rightarrow> db \<Rightarrow> outcome \<times> db" where
  "post_playlists req_user req d =
     (let (p, d') = Playlist_create d (body_name req) (user_id req_user)
      in (Sent (Response 201 (playlist_json p)), d'))"

text \<open>\<open>DELETE /playlists/:id\<close> (lines 153-168).\<close>

definition delete_playlist :: "user \<Rightarrow> request \<Rightarrow> db \<Rightarrow> outcome \<times> db" where
  "delete_playlist req_user req d =
     (case Playlist_destroy d (user_id req_user) (params_id req) of
        Inl error \<Rightarrow> (Rejected error, d)
      | Inr (n, d') \<Rightarrow>
          if n = 0 then (Sent (Response 404 not_found), d')
          else (Sent (Response 200 (JNum (int n))), d'))"

text \<open>\<open>POST /playlists/:id/songs\<close> (lines 170-193).\<close>

definition post_playlist_songs :: "user \<Rightarrow> request \<Rightarrow> db \<Rightarrow> outcome \<times> db" where
  "post_playlist_songs req_user req d =
     (case Playlist_findOne d (user_id req_user) (params_id req) of
        Inl error \<Rightarrow> (Rejected error, d)
      | Inr None \<Rightarrow> (Sent (Response 422 not_found), d)
      | Inr (Some p) \<Rightarrow>
          (let (s, d') = Song_create d (body_title req) (body_artist req) (body_album req)
                           (playlist_id p)
           in (Sent (Response 201 (song_json s)), d')))"

section \<open>Registration and login\<close>

text \<open>
  \<open>POST /users\<close> (lines 196-214). \<open>res.json\<close> without \<open>res.status\<close> answers 200. The salt is
  the one \<open>bcrypt.hashSync\<close> draws.
\<close>

definition post_users :: "string \<Rightarrow> request \<Rightarrow> db \<Rightarrow> outcome \<times> db" where
  "post_users salt req d =
     (if body_password req \<noteq> body_password_confirmation req then
        (Sent (Response 200 (JObj [(''error'', JStr ''Passwords need to match!'')])), d)
      else
        let (created, d') = User_create d (body_email req) (hashSync salt (body_password req) 10)
        in (Sent (Response 201
              (case User_findByPk d' (Some (user_id created)) of
                 None \<Rightarrow> JNull
               | Some u \<Rightarrow> JObj [(''id'', JNum (user_id u)), (''email'', JStr (user_email u))])),
            d'))"

text \<open>\<open>POST /tokens\<close> (lines 217-236), at clock time \<open>now\<close>.\<close>

definition post_tokens :: "env \<Rightarrow> int \<Rightarrow> request \<Rightarrow> db \<Rightarrow> outcome \<times> db" where
  "post_tokens e now req d =
     (case User_findOne_email d (body_email req) of
        None \<Rightarrow> (Sent unauthorized, d)
      | Some u \<Rightarrow>
          if \<not> compareSync (body_password req) (user_password u) then (Sent unauthorized, d)
          else (case toJWT e now [(''userId'', user_id u)] of
                  Inl error \<Rightarrow> (Rejected error, d)
                | Inr token \<Rightarrow> (Sent (Response 200 (JObj [(''token'', JStr token)])), d)))"

section \<open>A small installation\<close>

text \<open>
  Concrete data on which the theorems below are exercised. The wire format is a finite
  table: three strings are tokens (two signed with the secret, for the user ids 1 and 7,
  and one signed with another key), every other string is malformed.
\<close>

definition demo_tokens :: "(string \<times> jws) list" where
  "demo_tokens =
     [(''tok1'', JWS ''s3cret'' [(''userId'', 1), (''iat'', 1000), (''exp'', 8200)]),
      (''tok7'', JWS ''s3cret'' [(''userId'', 7), (''iat'', 1000), (''exp'', 8200)]),
      (''forged'', JWS ''guess'' [(''userId'', 1), (''iat'', 1000), (''exp'', 8200)])]"

definition demo_env :: env where
  "demo_env =
     \<lparr>jwtSecret = ''s3cret'',
      jws_encode = (\<lambda>j. case find (\<lambda>(s, j'). j' = j) demo_tokens of
                           None \<Rightarrow> ''untabulated''
                         | Some (s, _) \<Rightarrow> s),
      jws_decode = (\<lambda>s. case map_of demo_tokens s of
                           None \<Rightarrow> Inl ''jwt malformed''
                         | Some j \<Rightarrow> Inr j)\<rparr>"

definition ann :: user where
  "ann = \<lparr>user_id = 1, user_email = ''ann@example.org'',
          user_password = hashSync ''salt-a'' ''ann-pw'' 10\<rparr>"

definition bob :: user where
  "bob = \<lparr>user_id = 2, user_email = ''bob@example.org'',
          user_password = hashSync ''salt-b'' ''bob-pw'' 10\<rparr>"

definition demo_db :: db where
  "demo_db =
     \<lparr>users = [ann, bob],
      playlists = [\<lparr>playlist_id = 1, playlist_name = ''Ann mix'', playlist_userId = Some 1\<rparr>,
                   \<lparr>playlist_id = 2, playlist_name = ''Bob mix'', playlist_userId = Some 2\<rparr>],
      songs = [\<lparr>song_id = 1, song_title = ''So What'', song_artist = ''Miles Davis'',
                 song_album = ''Kind of Blue'', song_playlistId = Some 1\<rparr>,
               \<lparr>song_id = 2, song_title = ''Naima'', song_artist = ''John Coltrane'',
                 song_album = ''Giant Steps'', song_playlistId = Some 2\<rparr>],
      user_seq = 3, playlist_seq = 3, song_seq = 3\<rparr>"

definition empty_db :: db where
  "empty_db = \<lparr>users = [], playlists = [], songs = [],
               user_seq = 1, playlist_seq = 1, song_seq = 1\<rparr>"

definition demo_req :: request where
  "demo_req =
     \<lparr>authorization = Some ''Bearer tok1'', params_id = ''1'',
      body_name = ''Late night'', body_title = ''Blue in Green'',
      body_artist = ''Miles Davis'', body_album = ''Kind of Blue'',
      body_email = ''cat@example.org'', body_password = ''cat-pw'',
      body_password_confirmation = ''cat-pw''\<rparr>"

text \<open>Ann's token on a request that names Bob's playlist.\<close>

definition ann_on_bob :: request where
  "ann_on_bob = demo_req\<lparr>params_id := ''2''\<rparr>"


text \<open>Ann's token followed by a further piece in the header.\<close>

definition ann_extra_piece :: request where
  "ann_extra_piece = demo_req\<lparr>authorization := Some ''Bearer tok1 junk''\<rparr>"

text \<open>Two registrations that use one email address with different passwords.\<close>

definition dup_first :: request where
  "dup_first = demo_req\<lparr>body_email := ''dup@example.org'', body_password := ''first-pw'',
                          body_password_confirmation := ''first-pw''\<rparr>"

definition dup_second :: request where
  "dup_second = demo_req\<lparr>body_email := ''dup@example.org'', body_password := ''second-pw'',
                           body_password_confirmation := ''second-pw''\<rparr>"

section \<open>Properties of the token service\<close>

text \<open>
  The application signs one shape of claims, \<open>{ userId }\<close>. With a secret that is not
  empty (the process exits at start otherwise, lines 20-25) the token is the encoding of
  the claims followed by \<open>iat\<close>, the time of issue, and \<open>exp\<close>, two hours later.
\<close>

lemma toJWT_userId:
  "jwtSecret e \<noteq> [] \<Longrightarrow>
   toJWT e now [(''userId'', uid)] =
     Inr (jws_encode e (JWS (jwtSecret e)
            [(''userId'', uid), (''iat'', now), (''exp'', now + 7200)]))"
  by (simp add: toJWT_def jwt_sign_def expiresIn_2h_def)

lemma toJWT_Inr_exp:
  assumes "toJWT e now C = Inr tok"
  shows "\<exists>P. tok = jws_encode e (JWS (jwtSecret e) P) \<and> map_of P ''exp'' \<noteq> None \<and>
           map_of C ''exp'' = None"
  using assms
  by (auto simp: toJWT_def jwt_sign_def Let_def update_conv' split: if_splits)

lemma toData_payload:
  "toData e now tok = Inr data \<Longrightarrow>
   \<exists>j. jws_decode e tok = Inr j \<and> data = payload j \<and> signing_key j = jwtSecret e"
  by (auto simp: toData_def jwt_verify_def split: sum.splits if_splits)

text \<open>
  Whatever the claims and the wire format, as long as a signed token decodes to itself:
  a token that was issued never verifies to the very object it was issued from, since
  the payload has an \<open>exp\<close> and the claims \<open>jwt.sign\<close> accepts have none.
\<close>

lemma verify_issue_never_original:
  assumes "toJWT e now C = Inr tok"
    and "\<And>j. jws_decode e (jws_encode e j) = Inr j"
  shows "toData e later tok \<noteq> Inr C"
proof
  assume v: "toData e later tok = Inr C"
  from toJWT_Inr_exp [OF assms(1)] obtain P where
    P: "tok = jws_encode e (JWS (jwtSecret e) P)" "map_of P ''exp'' \<noteq> None"
       "map_of C ''exp'' = None"
    by blast
  from toData_payload [OF v] obtain j where "jws_decode e tok = Inr j" "C = payload j"
    by blast
  with P assms(2) show False by auto
qed

text \<open>
  C2, as stated: verifying a token freshly issued from claims \<open>C\<close>, before its expiry,
  returns \<open>C\<close>. It does not: issued from \<open>{ userId: 1 }\<close> at time 1000 and verified one
  second later, the token yields \<open>{ userId: 1, iat: 1000, exp: 8200 }\<close>.
\<close>

theorem verify_issue_counterexample:
  "toJWT demo_env 1000 [(''userId'', 1)] = Inr ''tok1'' \<and>
   toData demo_env 1001 ''tok1'' = Inr [(''userId'', 1), (''iat'', 1000), (''exp'', 8200)] \<and>
   toData demo_env 1001 ''tok1'' \<noteq> Inr [(''userId'', 1)]"
  by (simp add: toJWT_def jwt_sign_def expiresIn_2h_def toData_def jwt_verify_def
        demo_env_def demo_tokens_def)

text \<open>
  C2, amended: for every claims object \<open>{ userId }\<close>, verifying a token freshly issued
  from it, at any time before the token's expiry, returns the claims followed by \<open>iat\<close>
  (the time of issue) and \<open>exp\<close> (7200 seconds later). The second hypothesis is the wire
  format's: the issued token decodes to what was signed.
\<close>

theorem verify_issue:
  assumes "jwtSecret e \<noteq> []"
    and "jws_decode e (jws_encode e
           (JWS (jwtSecret e) [(''userId'', uid), (''iat'', now), (''exp'', now + 7200)]))
         = Inr (JWS (jwtSecret e) [(''userId'', uid), (''iat'', now), (''exp'', now + 7200)])"
    and "later < now + 7200"
  shows "\<exists>tok. toJWT e now [(''userId'', uid)] = Inr tok \<and>
           toData e later tok =
             Inr ([(''userId'', uid)] @ [(''iat'', now), (''exp'', now + 7200)])"
  using assms by (simp add: toJWT_userId toData_def jwt_verify_def)

theorem verify_issue_witness:
  "\<exists>tok. toJWT demo_env 1000 [(''userId'', 1)] = Inr tok \<and>
         toData demo_env 5000 tok =
           Inr ([(''userId'', 1)] @ [(''iat'', 1000), (''exp'', 1000 + 7200)])"
proof -
  have s: "jwtSecret demo_env \<noteq> []"
    by (simp add: demo_env_def)
  have r: "jws_decode demo_env (jws_encode demo_env
             (JWS (jwtSecret demo_env) [(''userId'', 1), (''iat'', 1000), (''exp'', 1000 + 7200)]))
           = Inr (JWS (jwtSecret demo_env)
               [(''userId'', 1), (''iat'', 1000), (''exp'', 1000 + 7200)])"
    by (simp add: demo_env_def demo_tokens_def)
  have l: "(5000::int) < 1000 + 7200"
    by simp
  show ?thesis
    by (rule verify_issue [OF s r l])
qed

text \<open>
  C8: every token the token service issues embeds an expiry two hours (\<open>2 * 60 * 60\<close>
  seconds) after the time of issue, and verifying it at any later time fails with
  \<open>TokenExpiredError\<close>. The tokens issued are those of \<open>toJWT({ userId })\<close>; the second
  hypothesis is the wire format's, as in C2.
\<close>

theorem token_expiry:
  assumes "jwtSecret e \<noteq> []"
    and "jws_decode e (jws_encode e
           (JWS (jwtSecret e) [(''userId'', uid), (''iat'', now), (''exp'', now + 2 * 60 * 60)]))
         = Inr (JWS (jwtSecret e)
             [(''userId'', uid), (''iat'', now), (''exp'', now + 2 * 60 * 60)])"
  shows "\<exists>tok. toJWT e now [(''userId'', uid)] = Inr tok \<and>
           tok = jws_encode e (JWS (jwtSecret e)
                   [(''userId'', uid), (''iat'', now), (''exp'', now + 2 * 60 * 60)]) \<and>
           (\<forall>later. now + 2 * 60 * 60 < later \<longrightarrow>
              toData e later tok = Inl (JsError ''TokenExpiredError'' ''jwt expired''))"
  using assms by (simp add: toJWT_userId toData_def jwt_verify_def)

theorem token_expiry_witness:
  "\<exists>tok. toJWT demo_env 1000 [(''userId'', 1)] = Inr tok \<and> tok = ''tok1'' \<and>
     toData demo_env 8201 tok = Inl (JsError ''TokenExpiredError'' ''jwt expired'')"
proof -
  let ?j = "JWS (jwtSecret demo_env) [(''userId'', 1), (''iat'', 1000), (''exp'', 1000 + 2 * 60 * 60)]"
  have s: "jwtSecret demo_env \<noteq> []"
    by (simp add: demo_env_def)
  have r: "jws_decode demo_env (jws_encode demo_env ?j) = Inr ?j"
    by (simp add: demo_env_def demo_tokens_def)
  have enc: "jws_encode demo_env ?j = ''tok1''"
    by (simp add: demo_env_def demo_tokens_def)
  from token_expiry [OF s r] obtain tok where
    t: "toJWT demo_env 1000 [(''userId'', 1)] = Inr tok" "tok = jws_encode demo_env ?j"
       "\<forall>later. 1000 + 2 * 60 * 60 < later \<longrightarrow>
          toData demo_env later tok = Inl (JsError ''TokenExpiredError'' ''jwt expired'')"
    by blast
  from t(3) have "toData demo_env 8201 tok = Inl (JsError ''TokenExpiredError'' ''jwt expired'')"
    by simp
  with t(1,2) enc show ?thesis
    by simp
qed

section \<open>Properties of the auth middleware\<close>

text \<open>What \<open>split(' ')\<close> returns, and how a header is put together from its pieces.\<close>

lemma split_space_not_Nil: "split_space h \<noteq> []"
  by (induction h) (auto split: list.splits)

lemma split_space_two:
  "split_space h = a0 # a1 # r \<Longrightarrow> \<exists>t. h = a0 @ CHR '' '' # t \<and> split_space t = a1 # r"
proof (induction h arbitrary: a0)
  case Nil
  then show ?case by simp
next
  case (Cons c cs)
  show ?case
  proof (cases "c = CHR '' ''")
    case True
    with Cons.prems show ?thesis by auto
  next
    case False
    with Cons.prems obtain w where w: "split_space cs = w # a1 # r" and a0: "a0 = c # w"
      by (auto split: list.splits)
    from Cons.IH [OF w] obtain t where "cs = w @ CHR '' '' # t" "split_space t = a1 # r"
      by blast
    with a0 show ?thesis by auto
  qed
qed

lemma split_space_single: "CHR '' '' \<notin> set t \<Longrightarrow> split_space t = [t]"
  by (induction t) auto

lemma split_space_piece:
  "CHR '' '' \<notin> set a \<Longrightarrow> split_space (a @ CHR '' '' # t) = a # split_space t"
  by (induction a) auto

lemma split_space_Bearer: "split_space (''Bearer '' @ t) = ''Bearer'' # split_space t"
  using split_space_piece [of "''Bearer''" t] by simp

lemma split_space_Bearer_token:
  "CHR '' '' \<notin> set token \<Longrightarrow> split_space (''Bearer '' @ token) = [''Bearer'', token]"
  using split_space_Bearer [of token] by (simp add: split_space_single)

text \<open>
  A header \<open>Bearer <token>\<close>, the token not empty and without a space: the middleware
  verifies that token and looks its \<open>userId\<close> up.
\<close>

lemma auth_Bearer_token:
  assumes "authorization req = Some (''Bearer '' @ token)" "token \<noteq> []" "CHR '' '' \<notin> set token"
  shows "auth e now d req =
    (case toData e now token of
       Inl error \<Rightarrow>
         Responded (Response 400
           (JObj [(''error'', JStr (''Error '' @ err_name error @ '': '' @ err_message error))]))
     | Inr data \<Rightarrow>
         (case User_findByPk d (map_of data ''userId'') of
            None \<Rightarrow> NextError ''User does not exist''
          | Some user \<Rightarrow> Authorized user))"
proof -
  have "split_space (''Bearer '' @ token) = [''Bearer'', token]"
    using assms(3) by (rule split_space_Bearer_token)
  with assms(1,2) show ?thesis
    by (simp add: auth_def)
qed

text \<open>
  Only the second piece of the header is read: whatever follows a further space is
  ignored.
\<close>

lemma auth_extra_pieces:
  assumes "token \<noteq> []" "CHR '' '' \<notin> set token"
  shows "auth e now d (req\<lparr>authorization := Some (''Bearer '' @ token @ CHR '' '' # junk)\<rparr>) =
         auth e now d (req\<lparr>authorization := Some (''Bearer '' @ token)\<rparr>)"
proof -
  have "split_space (''Bearer '' @ token @ CHR '' '' # junk) = ''Bearer'' # token # split_space junk"
    using split_space_Bearer [of "token @ CHR '' '' # junk"] assms(2)
    by (simp add: split_space_piece)
  moreover have "split_space (''Bearer '' @ token) = [''Bearer'', token]"
    using assms(2) by (rule split_space_Bearer_token)
  ultimately show ?thesis
    using assms(1) by (simp add: auth_def)
qed

text \<open>The three ways a token fails that the interface names, and the error of each.\<close>

lemma toData_malformed:
  "jws_decode e token = Inl msg \<Longrightarrow> toData e now token = Inl (JsError ''JsonWebTokenError'' msg)"
  by (simp add: toData_def jwt_verify_def)

lemma toData_invalid_signature:
  "jws_decode e token = Inr j \<Longrightarrow> jwtSecret e \<noteq> [] \<Longrightarrow> signing_key j \<noteq> jwtSecret e \<Longrightarrow>
   toData e now token = Inl (JsError ''JsonWebTokenError'' ''invalid signature'')"
  by (simp add: toData_def jwt_verify_def)

lemma toData_expired:
  "jws_decode e token = Inr j \<Longrightarrow> jwtSecret e \<noteq> [] \<Longrightarrow> signing_key j = jwtSecret e \<Longrightarrow>
   map_of (payload j) ''nbf'' = None \<Longrightarrow> map_of (payload j) ''exp'' = Some x \<Longrightarrow> x \<le> now \<Longrightarrow>
   toData e now token = Inl (JsError ''TokenExpiredError'' ''jwt expired'')"
  by (simp add: toData_def jwt_verify_def)

lemma toData_fails:
  assumes "jws_decode e token = Inl msg \<or>
     (\<exists>j. jws_decode e token = Inr j \<and> signing_key j \<noteq> jwtSecret e) \<or>
     (\<exists>j x. jws_decode e token = Inr j \<and> map_of (payload j) ''exp'' = Some x \<and> x \<le> now)"
  shows "\<exists>error. toData e now token = Inl error"
  using assms by (auto simp: toData_def jwt_verify_def split: sum.splits option.splits)

text \<open>
  A token verifies when it decodes, was signed with the secret, has no \<open>nbf\<close> and an \<open>exp\<close>
  that is not reached.
\<close>

lemma toData_valid:
  "jws_decode e token = Inr j \<Longrightarrow> jwtSecret e \<noteq> [] \<Longrightarrow> signing_key j = jwtSecret e \<Longrightarrow>
   map_of (payload j) ''nbf'' = None \<Longrightarrow> map_of (payload j) ''exp'' = Some x \<Longrightarrow> now < x \<Longrightarrow>
   toData e now token = Inr (payload j)"
  by (simp add: toData_def jwt_verify_def)

text \<open>
  C3: a request carrying a bearer token that verifies (well formed, signed with the
  secret, not expired: \<open>toData\<close> returns its payload) whose \<open>userId\<close> is the key of no user
  is rejected: the middleware calls \<open>next('User does not exist')\<close>, so the chain stops in
  error handling with that value, no handler runs whichever it is, and no identity is
  attached.
\<close>

theorem auth_user_missing:
  assumes "authorization req = Some (''Bearer '' @ token)" "token \<noteq> []" "CHR '' '' \<notin> set token"
    and "toData e now token = Inr data"
    and "User_findByPk d (map_of data ''userId'') = None"
  shows "auth e now d req = NextError ''User does not exist'' \<and>
         (\<forall>handler. protected e now handler req d = (ErrorHandler ''User does not exist'', d))"
  using assms(4,5) by (simp add: auth_Bearer_token [OF assms(1-3)] protected_def)

theorem auth_user_missing_witness:
  "auth demo_env 1001 demo_db (demo_req\<lparr>authorization := Some ''Bearer tok7''\<rparr>)
     = NextError ''User does not exist'' \<and>
   protected demo_env 1001 get_playlists (demo_req\<lparr>authorization := Some ''Bearer tok7''\<rparr>) demo_db
     = (ErrorHandler ''User does not exist'', demo_db)"
proof -
  let ?req = "demo_req\<lparr>authorization := Some ''Bearer tok7''\<rparr>"
  have h: "authorization ?req = Some (''Bearer '' @ ''tok7'')" "''tok7'' \<noteq> []"
    "CHR '' '' \<notin> set ''tok7''"
    by simp_all
  have v: "toData demo_env 1001 ''tok7'' = Inr [(''userId'', 7), (''iat'', 1000), (''exp'', 8200)]"
    by (simp add: toData_def jwt_verify_def demo_env_def demo_tokens_def)
  have u: "User_findByPk demo_db (map_of [(''userId'', 7), (''iat'', 1000), (''exp'', 8200)] ''userId'') = None"
    by (simp add: User_findByPk_def demo_db_def ann_def bob_def)
  from auth_user_missing [OF h v u] show ?thesis
    by blast
qed

text \<open>Whatever \<open>toData\<close> throws is answered with 400 and the error's name and message.\<close>

lemma auth_toData_throws:
  assumes "authorization req = Some (''Bearer '' @ token)" "token \<noteq> []" "CHR '' '' \<notin> set token"
    and "toData e now token = Inl error"
  shows "auth e now d req =
           Responded (Response 400
             (JObj [(''error'', JStr (''Error '' @ err_name error @ '': '' @ err_message error))])) \<and>
         (\<forall>handler. protected e now handler req d =
            (Sent (Response 400
               (JObj [(''error'', JStr (''Error '' @ err_name error @ '': '' @ err_message error))])), d))"
  using assms(4) by (simp add: auth_Bearer_token [OF assms(1-3)] protected_def)

text \<open>
  C4: a request whose bearer token fails verification, being malformed (it does not
  decode), signed with another key than the secret, or expired (its \<open>exp\<close> is reached), is
  answered with status 400 and the body \<open>{ error: "Error <name>: <message>" }\<close>, name
  and message being those of the error \<open>toData\<close> threw, and no handler runs whichever it
  is.
\<close>

theorem auth_bad_token:
  assumes "authorization req = Some (''Bearer '' @ token)" "token \<noteq> []" "CHR '' '' \<notin> set token"
    and "jws_decode e token = Inl msg \<or>
         (\<exists>j. jws_decode e token = Inr j \<and> signing_key j \<noteq> jwtSecret e) \<or>
         (\<exists>j x. jws_decode e token = Inr j \<and> map_of (payload j) ''exp'' = Some x \<and> x \<le> now)"
  shows "\<exists>error. toData e now token = Inl error \<and>
           auth e now d req =
             Responded (Response 400
               (JObj [(''error'', JStr (''Error '' @ err_name error @ '': '' @ err_message error))])) \<and>
           (\<forall>handler. protected e now handler req d =
              (Sent (Response 400
                 (JObj [(''error'',
                    JStr (''Error '' @ err_name error @ '': '' @ err_message error))])), d))"
proof -
  from toData_fails [OF assms(4)] obtain error where "toData e now token = Inl error"
    by blast
  with auth_toData_throws [OF assms(1-3) this] show ?thesis
    by blast
qed

theorem auth_bad_token_witness:
  "auth demo_env 1001 demo_db (demo_req\<lparr>authorization := Some ''Bearer garbage''\<rparr>)
     = Responded (Response 400 (JObj [(''error'', JStr ''Error JsonWebTokenError: jwt malformed'')])) \<and>
   auth demo_env 1001 demo_db (demo_req\<lparr>authorization := Some ''Bearer forged''\<rparr>)
     = Responded (Response 400
         (JObj [(''error'', JStr ''Error JsonWebTokenError: invalid signature'')])) \<and>
   protected demo_env 8200 get_playlists demo_req demo_db
     = (Sent (Response 400 (JObj [(''error'', JStr ''Error TokenExpiredError: jwt expired'')])),
        demo_db)"
proof -
  let ?j = "JWS ''s3cret'' [(''userId'', 1), (''iat'', 1000), (''exp'', 8200)]"
  have g: "jws_decode demo_env ''garbage'' = Inl ''jwt malformed'' \<or>
       (\<exists>j. jws_decode demo_env ''garbage'' = Inr j \<and> signing_key j \<noteq> jwtSecret demo_env) \<or>
       (\<exists>j x. jws_decode demo_env ''garbage'' = Inr j \<and> map_of (payload j) ''exp'' = Some x \<and>
              x \<le> 1001)"
    by (simp add: demo_env_def demo_tokens_def)
  have f: "jws_decode demo_env ''forged'' = Inl [] \<or>
       (\<exists>j. jws_decode demo_env ''forged'' = Inr j \<and> signing_key j \<noteq> jwtSecret demo_env) \<or>
       (\<exists>j x. jws_decode demo_env ''forged'' = Inr j \<and> map_of (payload j) ''exp'' = Some x \<and>
              x \<le> 1001)"
    by (simp add: demo_env_def demo_tokens_def)
  have "jws_decode demo_env ''tok1'' = Inr ?j \<and> map_of (payload ?j) ''exp'' = Some 8200 \<and>
        (8200::int) \<le> 8200"
    by (simp add: demo_env_def demo_tokens_def)
  then have x: "jws_decode demo_env ''tok1'' = Inl [] \<or>
       (\<exists>j. jws_decode demo_env ''tok1'' = Inr j \<and> signing_key j \<noteq> jwtSecret demo_env) \<or>
       (\<exists>j x. jws_decode demo_env ''tok1'' = Inr j \<and> map_of (payload j) ''exp'' = Some x \<and>
              x \<le> 8200)"
    by blast
  have tg: "toData demo_env 1001 ''garbage'' = Inl (JsError ''JsonWebTokenError'' ''jwt malformed'')"
    by (simp add: toData_def jwt_verify_def demo_env_def demo_tokens_def)
  have tf: "toData demo_env 1001 ''forged'' =
              Inl (JsError ''JsonWebTokenError'' ''invalid signature'')"
    by (simp add: toData_def jwt_verify_def demo_env_def demo_tokens_def)
  have tx: "toData demo_env 8200 ''tok1'' = Inl (JsError ''TokenExpiredError'' ''jwt expired'')"
    by (simp add: toData_def jwt_verify_def demo_env_def demo_tokens_def)
  have 1: "auth demo_env 1001 demo_db (demo_req\<lparr>authorization := Some ''Bearer garbage''\<rparr>)
     = Responded (Response 400 (JObj [(''error'', JStr ''Error JsonWebTokenError: jwt malformed'')]))"
    using auth_bad_token [of "demo_req\<lparr>authorization := Some ''Bearer garbage''\<rparr>" "''garbage''",
        OF _ _ _ g, of demo_db] tg
    by auto
  have 2: "auth demo_env 1001 demo_db (demo_req\<lparr>authorization := Some ''Bearer forged''\<rparr>)
     = Responded (Response 400
         (JObj [(''error'', JStr ''Error JsonWebTokenError: invalid signature'')]))"
    using auth_bad_token [of "demo_req\<lparr>authorization := Some ''Bearer forged''\<rparr>" "''forged''",
        OF _ _ _ f, of demo_db] tf
    by auto
  have 3: "protected demo_env 8200 get_playlists demo_req demo_db
     = (Sent (Response 400 (JObj [(''error'', JStr ''Error TokenExpiredError: jwt expired'')])),
        demo_db)"
    using auth_bad_token [of demo_req "''tok1''", OF _ _ _ x, of demo_db] tx
    by (auto simp: demo_req_def)
  from 1 2 3 show ?thesis
    by blast
qed

text \<open>The second piece of a header has no space, and ends the header or is followed by one.\<close>

lemma split_space_first:
  "split_space t = a1 # r \<Longrightarrow>
   CHR '' '' \<notin> set a1 \<and> (t = a1 \<or> (\<exists>rest. t = a1 @ CHR '' '' # rest))"
proof (induction t arbitrary: a1 r)
  case Nil
  then show ?case by simp
next
  case (Cons c cs)
  show ?case
  proof (cases "c = CHR '' ''")
    case True
    with Cons.prems show ?thesis by auto
  next
    case False
    with Cons.prems obtain w ws where w: "split_space cs = w # ws" and a1: "a1 = c # w"
      by (auto simp: split_space_not_Nil split: list.splits)
    from Cons.IH [OF w] a1 False show ?thesis by auto
  qed
qed

text \<open>
  C5, as stated: a header that is not \<open>Bearer <token>\<close> with a token that is not empty is
  answered with 401, the handler is not run and the token is not verified. With the token
  taken as C3 and C4 take it, a string without a space, the header \<open>Bearer tok1 junk\<close>
  is not of that form; yet its second piece is verified, the request is authorized and
  the handler answers.
\<close>

theorem auth_extra_piece_counterexample:
  "\<not> (\<exists>token. token \<noteq> [] \<and> CHR '' '' \<notin> set token \<and>
         authorization ann_extra_piece = Some (''Bearer '' @ token)) \<and>
   auth demo_env 1001 demo_db ann_extra_piece = Authorized ann \<and>
   protected demo_env 1001 get_playlists ann_extra_piece demo_db =
     (Sent (Response 200 (JArr [JObj [(''id'', JNum 1), (''name'', JStr ''Ann mix'')]])), demo_db)"
proof -
  have "\<not> (\<exists>token. token \<noteq> [] \<and> CHR '' '' \<notin> set token \<and>
         authorization ann_extra_piece = Some (''Bearer '' @ token))"
    by (auto simp: ann_extra_piece_def)
  moreover have a: "auth demo_env 1001 demo_db ann_extra_piece = Authorized ann"
    by (simp add: auth_def ann_extra_piece_def toData_def jwt_verify_def demo_env_def
        demo_tokens_def User_findByPk_def demo_db_def ann_def)
  moreover have "protected demo_env 1001 get_playlists ann_extra_piece demo_db =
     (Sent (Response 200 (JArr [JObj [(''id'', JNum 1), (''name'', JStr ''Ann mix'')]])), demo_db)"
    unfolding protected_def a
    by (simp add: get_playlists_def Playlist_findAll_def playlist_id_name_def
        demo_db_def ann_def)
  ultimately show ?thesis
    by blast
qed

text \<open>
  C5, amended: a request whose \<open>Authorization\<close> header is absent, or does not begin with
  \<open>Bearer\<close>, one space and a token that is not empty, has no space and either ends the
  header or is followed by a space, is answered with status 401 and the body
  \<open>{ error: "Unauthorized" }\<close>. Nothing else happens: the answer is the same for every
  secret, wire format, clock, database and handler, so neither the token service nor the
  handler has a part in it. Every other header is covered by \<open>auth_Bearer_token\<close> and
  \<open>auth_extra_pieces\<close>: its token is verified.
\<close>

theorem auth_unauthorized:
  assumes "authorization req = None \<or>
           (\<forall>token rest. token \<noteq> [] \<and> CHR '' '' \<notin> set token \<longrightarrow>
              authorization req \<noteq> Some (''Bearer '' @ token) \<and>
              authorization req \<noteq> Some (''Bearer '' @ token @ CHR '' '' # rest))"
  shows "auth e now d req = Responded (Response 401 (JObj [(''error'', JStr ''Unauthorized'')])) \<and>
         (\<forall>handler. protected e now handler req d =
            (Sent (Response 401 (JObj [(''error'', JStr ''Unauthorized'')])), d))"
proof -
  have "auth e now d req = Responded unauthorized"
  proof (cases "authorization req")
    case None
    then show ?thesis by (simp add: auth_def)
  next
    case (Some h)
    with assms have form:
      "\<And>token rest. token \<noteq> [] \<Longrightarrow> CHR '' '' \<notin> set token \<Longrightarrow>
         h \<noteq> ''Bearer '' @ token \<and> h \<noteq> ''Bearer '' @ token @ CHR '' '' # rest"
      by auto
    show ?thesis
    proof (cases "split_space h")
      case Nil
      then show ?thesis by (simp add: split_space_not_Nil)
    next
      case (Cons a0 r)
      show ?thesis
      proof (cases r)
        case Nil
        with Cons Some show ?thesis by (simp add: auth_def)
      next
        case (Cons a1 r')
        with \<open>split_space h = a0 # r\<close> have sp: "split_space h = a0 # a1 # r'" by simp
        from split_space_two [OF sp] obtain t where
          t: "h = a0 @ CHR '' '' # t" "split_space t = a1 # r'"
          by blast
        from split_space_first [OF t(2)] have
          a1: "CHR '' '' \<notin> set a1" "t = a1 \<or> (\<exists>rest. t = a1 @ CHR '' '' # rest)"
          by blast+
        have "\<not> (a0 = ''Bearer'' \<and> a1 \<noteq> [])"
        proof
          assume a: "a0 = ''Bearer'' \<and> a1 \<noteq> []"
          with t(1) a1(2) have
            "h = ''Bearer '' @ a1 \<or> (\<exists>rest. h = ''Bearer '' @ a1 @ CHR '' '' # rest)"
            by auto
          with form [of a1] a a1(1) show False by blast
        qed
        with sp Some show ?thesis by (auto simp: auth_def)
      qed
    qed
  qed
  then show ?thesis
    by (simp add: protected_def unauthorized_def)
qed

theorem auth_unauthorized_witness:
  "auth demo_env 1001 demo_db (demo_req\<lparr>authorization := None\<rparr>)
     = Responded (Response 401 (JObj [(''error'', JStr ''Unauthorized'')])) \<and>
   auth demo_env 1001 demo_db (demo_req\<lparr>authorization := Some ''Basic tok1''\<rparr>)
     = Responded (Response 401 (JObj [(''error'', JStr ''Unauthorized'')])) \<and>
   auth demo_env 1001 demo_db (demo_req\<lparr>authorization := Some ''Bearer  tok1''\<rparr>)
     = Responded (Response 401 (JObj [(''error'', JStr ''Unauthorized'')])) \<and>
   protected demo_env 1001 delete_playlist (demo_req\<lparr>authorization := Some ''Bearer ''\<rparr>) demo_db
     = (Sent (Response 401 (JObj [(''error'', JStr ''Unauthorized'')])), demo_db)"
proof -
  have 1: "authorization (demo_req\<lparr>authorization := None\<rparr>) = None \<or>
     (\<forall>token rest. token \<noteq> [] \<and> CHR '' '' \<notin> set token \<longrightarrow>
        authorization (demo_req\<lparr>authorization := None\<rparr>) \<noteq> Some (''Bearer '' @ token) \<and>
        authorization (demo_req\<lparr>authorization := None\<rparr>)
          \<noteq> Some (''Bearer '' @ token @ CHR '' '' # rest))"
    by simp
  have 2: "authorization (demo_req\<lparr>authorization := Some ''Basic tok1''\<rparr>) = None \<or>
     (\<forall>token rest. token \<noteq> [] \<and> CHR '' '' \<notin> set token \<longrightarrow>
        authorization (demo_req\<lparr>authorization := Some ''Basic tok1''\<rparr>)
          \<noteq> Some (''Bearer '' @ token) \<and>
        authorization (demo_req\<lparr>authorization := Some ''Basic tok1''\<rparr>)
          \<noteq> Some (''Bearer '' @ token @ CHR '' '' # rest))"
    by simp
  have 3: "authorization (demo_req\<lparr>authorization := Some ''Bearer  tok1''\<rparr>) = None \<or>
     (\<forall>token rest. token \<noteq> [] \<and> CHR '' '' \<notin> set token \<longrightarrow>
        authorization (demo_req\<lparr>authorization := Some ''Bearer  tok1''\<rparr>)
          \<noteq> Some (''Bearer '' @ token) \<and>
        authorization (demo_req\<lparr>authorization := Some ''Bearer  tok1''\<rparr>)
          \<noteq> Some (''Bearer '' @ token @ CHR '' '' # rest))"
    by (auto simp: Cons_eq_append_conv)
  have 4: "authorization (demo_req\<lparr>authorization := Some ''Bearer ''\<rparr>) = None \<or>
     (\<forall>token rest. token \<noteq> [] \<and> CHR '' '' \<notin> set token \<longrightarrow>
        authorization (demo_req\<lparr>authorization := Some ''Bearer ''\<rparr>)
          \<noteq> Some (''Bearer '' @ token) \<and>
        authorization (demo_req\<lparr>authorization := Some ''Bearer ''\<rparr>)
          \<noteq> Some (''Bearer '' @ token @ CHR '' '' # rest))"
    by auto
  from auth_unauthorized [OF 1] auth_unauthorized [OF 2] auth_unauthorized [OF 3]
    auth_unauthorized [OF 4]
  show ?thesis by blast
qed

section \<open>Properties of registration and login\<close>

text \<open>
  C6: a registration whose \<open>password\<close> differs from its \<open>password_confirmation\<close> is
  answered with an error body under status 200, and the database, the users with it, is
  left as it was.
\<close>

theorem register_mismatch:
  assumes "body_password req \<noteq> body_password_confirmation req"
  shows "post_users salt req d =
           (Sent (Response 200 (JObj [(''error'', JStr ''Passwords need to match!'')])), d)"
  using assms by (simp add: post_users_def)

theorem register_mismatch_witness:
  "post_users ''salt-c'' (demo_req\<lparr>body_password_confirmation := ''cat-pW''\<rparr>) demo_db
     = (Sent (Response 200 (JObj [(''error'', JStr ''Passwords need to match!'')])), demo_db)"
proof -
  have "body_password (demo_req\<lparr>body_password_confirmation := ''cat-pW''\<rparr>)
        \<noteq> body_password_confirmation (demo_req\<lparr>body_password_confirmation := ''cat-pW''\<rparr>)"
    by (simp add: demo_req_def)
  then show ?thesis
    by (rule register_mismatch)
qed

text \<open>\<open>find\<close> over a table that grows at its end.\<close>

lemma find_append_fresh:
  "\<forall>x \<in> set xs. \<not> P x \<Longrightarrow> P y \<Longrightarrow> find P (xs @ [y]) = Some y"
  by (induction xs) auto

lemma find_append_old:
  "find P xs = Some x \<Longrightarrow> find P (xs @ ys) = Some x"
  by (induction xs) (auto split: if_splits)

lemma find_SomeD: "find P xs = Some x \<Longrightarrow> x \<in> set xs \<and> P x"
  by (induction xs) (auto split: if_splits)

lemma find_None_iff': "find P xs = None \<longleftrightarrow> (\<forall>x \<in> set xs. \<not> P x)"
  by (induction xs) auto

text \<open>
  C7: a registration whose password and confirmation match is answered with status 201
  and the body \<open>{ id, email }\<close> of the user it created, exactly these two fields: neither
  the password nor its hash, which is stored in the new row only. The email is the one
  stored, a NUL in it rewritten. The keys of the users table are taken to be below its
  sequence, as a serial primary key makes them.
\<close>

theorem register_success:
  assumes "wf_db d"
    and "body_password req = body_password_confirmation req"
  shows "\<exists>d'. post_users salt req d =
           (Sent (Response 201
              (JObj [(''id'', JNum (user_seq d)),
                     (''email'', JStr (escape_text (body_email req)))])), d') \<and>
         users d' = users d @ [\<lparr>user_id = user_seq d, user_email = escape_text (body_email req),
                                user_password = hashSync salt (body_password req) 10\<rparr>]"
proof -
  let ?u = "\<lparr>user_id = user_seq d, user_email = escape_text (body_email req),
             user_password = hashSync salt (body_password req) 10\<rparr>"
  from assms(1) have "\<forall>x \<in> set (users d). \<not> user_id x = user_seq d"
    by (auto simp: wf_db_def)
  then have "find (\<lambda>u. user_id u = user_seq d) (users d @ [?u]) = Some ?u"
    by (rule find_append_fresh) simp
  with assms(2) show ?thesis
    by (simp add: post_users_def User_create_def User_findByPk_def Let_def)
qed

theorem register_success_witness:
  "\<exists>d'. post_users ''salt-c'' demo_req demo_db =
           (Sent (Response 201 (JObj [(''id'', JNum 3), (''email'', JStr ''cat@example.org'')])), d') \<and>
         users d' = [ann, bob, \<lparr>user_id = 3, user_email = ''cat@example.org'',
                                user_password = BcryptHash 10 ''salt-c'' ''cat-pw''\<rparr>]"
proof -
  have w: "wf_db demo_db"
    by (simp add: wf_db_def demo_db_def ann_def bob_def)
  have m: "body_password demo_req = body_password_confirmation demo_req"
    by (simp add: demo_req_def)
  from register_success [OF w m, of "''salt-c''"] show ?thesis
    by (simp add: demo_db_def demo_req_def hashSync_def escape_text_def)
qed

text \<open>
  A password verifies against its own hash; against the hash of another password it
  verifies exactly when the two agree on their first 72 bytes.
\<close>

lemma compareSync_hashSync: "compareSync P (hashSync salt P rounds)"
  by (simp add: compareSync_def hashSync_def)

lemma compareSync_iff:
  "compareSync P (hashSync salt Q rounds) \<longleftrightarrow> take 72 P = take 72 Q"
  by (auto simp: compareSync_def hashSync_def)

text \<open>
  Registration does not look for an earlier user with the same email. A new user is the
  first row with its email only when no earlier row has it, and stays the first row with
  that email through every later registration.
\<close>

lemma post_users_first_with_email:
  assumes "\<forall>x \<in> set (users d). user_email x \<noteq> escape_text (body_email req)"
    and "body_password req = body_password_confirmation req"
  shows "User_findOne_email (snd (post_users salt req d)) (body_email req) =
           Some \<lparr>user_id = user_seq d, user_email = escape_text (body_email req),
                 user_password = hashSync salt (body_password req) 10\<rparr>"
proof -
  let ?u = "\<lparr>user_id = user_seq d, user_email = escape_text (body_email req),
             user_password = hashSync salt (body_password req) 10\<rparr>"
  from assms(1) have "\<forall>x \<in> set (users d). \<not> user_email x = escape_text (body_email req)"
    by simp
  then have "find (\<lambda>x. user_email x = escape_text (body_email req)) (users d @ [?u]) = Some ?u"
    by (rule find_append_fresh) simp
  with assms(2) show ?thesis
    by (simp add: post_users_def User_create_def User_findOne_email_def Let_def)
qed

lemma post_users_keeps_first:
  assumes "User_findOne_email d em = Some u"
  shows "User_findOne_email (snd (post_users salt req d)) em = Some u"
  using assms
  by (auto simp: post_users_def User_create_def User_findOne_email_def Let_def
      intro: find_append_old)

text \<open>
  C9, as stated: a user registered with password \<open>P\<close> who logs in with its email and \<open>P\<close>
  receives 200 and a token. Not when the email was registered before: both registrations
  below are answered 201, and the second user's login, with the password it registered,
  is answered 401, because \<open>findOne\<close> returns one row for the email and it is the first
  user's.
\<close>

theorem login_duplicate_email_counterexample:
  "fst (post_users ''salt-1'' dup_first empty_db) =
     Sent (Response 201 (JObj [(''id'', JNum 1), (''email'', JStr ''dup@example.org'')])) \<and>
   fst (post_users ''salt-2'' dup_second (snd (post_users ''salt-1'' dup_first empty_db))) =
     Sent (Response 201 (JObj [(''id'', JNum 2), (''email'', JStr ''dup@example.org'')])) \<and>
   fst (post_tokens demo_env 1000 dup_second
          (snd (post_users ''salt-2'' dup_second (snd (post_users ''salt-1'' dup_first empty_db))))) =
     Sent (Response 401 (JObj [(''error'', JStr ''Unauthorized'')]))"
  by (simp add: post_users_def User_create_def User_findByPk_def Let_def post_tokens_def
      User_findOne_email_def compareSync_def hashSync_def unauthorized_def escape_text_def
      dup_first_def dup_second_def empty_db_def demo_req_def)

text \<open>
  C9, amended. A login for which no user has the given email (as it is stored, a NUL in
  it rewritten), or for which the password
  does not verify against the hash of the user found for the email, is answered with 401
  \<open>{ error: "Unauthorized" }\<close>, no token in it. A login with the email and the password
  \<open>P\<close> of a user who registered with \<open>P\<close> (its row holds a hash of \<open>P\<close>) and who is the
  user found for that email (no earlier registration used the email) is answered with
  200 \<open>{ token }\<close>, the token signed with the secret over a payload whose \<open>userId\<close> is
  that user's key.
\<close>

theorem login_outcomes:
  "((\<forall>x \<in> set (users d). user_email x \<noteq> escape_text (body_email req)) \<or>
    (\<exists>x. User_findOne_email d (body_email req) = Some x \<and>
         \<not> compareSync (body_password req) (user_password x))
    \<longrightarrow> post_tokens e now req d =
          (Sent (Response 401 (JObj [(''error'', JStr ''Unauthorized'')])), d)) \<and>
   (jwtSecret e \<noteq> [] \<and> User_findOne_email d (body_email req) = Some u \<and>
    user_password u = hashSync salt (body_password req) 10
    \<longrightarrow> post_tokens e now req d =
          (Sent (Response 200 (JObj [(''token'',
             JStr (jws_encode e (JWS (jwtSecret e)
               [(''userId'', user_id u), (''iat'', now), (''exp'', now + 7200)])))])), d))"
proof (intro conjI impI)
  assume "(\<forall>x \<in> set (users d). user_email x \<noteq> escape_text (body_email req)) \<or>
    (\<exists>x. User_findOne_email d (body_email req) = Some x \<and>
         \<not> compareSync (body_password req) (user_password x))"
  then show "post_tokens e now req d =
          (Sent (Response 401 (JObj [(''error'', JStr ''Unauthorized'')])), d)"
  proof
    assume "\<forall>x \<in> set (users d). user_email x \<noteq> escape_text (body_email req)"
    then have "User_findOne_email d (body_email req) = None"
      by (simp add: User_findOne_email_def find_None_iff')
    then show ?thesis
      by (simp add: post_tokens_def unauthorized_def)
  next
    assume "\<exists>x. User_findOne_email d (body_email req) = Some x \<and>
         \<not> compareSync (body_password req) (user_password x)"
    then show ?thesis
      by (auto simp: post_tokens_def unauthorized_def)
  qed
next
  assume h: "jwtSecret e \<noteq> [] \<and> User_findOne_email d (body_email req) = Some u \<and>
    user_password u = hashSync salt (body_password req) 10"
  then have "compareSync (body_password req) (user_password u)"
    by (simp add: compareSync_hashSync)
  with h show "post_tokens e now req d =
          (Sent (Response 200 (JObj [(''token'',
             JStr (jws_encode e (JWS (jwtSecret e)
               [(''userId'', user_id u), (''iat'', now), (''exp'', now + 7200)])))])), d)"
    by (simp add: post_tokens_def toJWT_userId)
qed

theorem login_outcomes_witness:
  "post_tokens demo_env 1000 (demo_req\<lparr>body_email := ''nobody@example.org''\<rparr>) demo_db =
     (Sent (Response 401 (JObj [(''error'', JStr ''Unauthorized'')])), demo_db) \<and>
   post_tokens demo_env 1000 (demo_req\<lparr>body_email := ''ann@example.org''\<rparr>) demo_db =
     (Sent (Response 401 (JObj [(''error'', JStr ''Unauthorized'')])), demo_db) \<and>
   post_tokens demo_env 1000
       (demo_req\<lparr>body_email := ''ann@example.org'', body_password := ''ann-pw''\<rparr>) demo_db =
     (Sent (Response 200 (JObj [(''token'', JStr ''tok1'')])), demo_db)"
proof -
  let ?r1 = "demo_req\<lparr>body_email := ''nobody@example.org''\<rparr>"
  let ?r2 = "demo_req\<lparr>body_email := ''ann@example.org''\<rparr>"
  let ?r3 = "demo_req\<lparr>body_email := ''ann@example.org'', body_password := ''ann-pw''\<rparr>"
  have h1: "(\<forall>x \<in> set (users demo_db). user_email x \<noteq> escape_text (body_email ?r1)) \<or>
    (\<exists>x. User_findOne_email demo_db (body_email ?r1) = Some x \<and>
         \<not> compareSync (body_password ?r1) (user_password x))"
    by (simp add: demo_db_def ann_def bob_def escape_text_def)
  have f: "User_findOne_email demo_db ''ann@example.org'' = Some ann"
    by (simp add: User_findOne_email_def demo_db_def ann_def escape_text_def)
  have "\<not> compareSync (body_password ?r2) (user_password ann)"
    by (simp add: compareSync_def hashSync_def ann_def demo_req_def)
  with f have h2: "(\<forall>x \<in> set (users demo_db). user_email x \<noteq> escape_text (body_email ?r2)) \<or>
    (\<exists>x. User_findOne_email demo_db (body_email ?r2) = Some x \<and>
         \<not> compareSync (body_password ?r2) (user_password x))"
    by simp
  have h3: "jwtSecret demo_env \<noteq> [] \<and> User_findOne_email demo_db (body_email ?r3) = Some ann \<and>
    user_password ann = hashSync ''salt-a'' (body_password ?r3) 10"
    using f by (simp add: demo_env_def ann_def)
  have enc: "jws_encode demo_env (JWS (jwtSecret demo_env)
               [(''userId'', user_id ann), (''iat'', 1000), (''exp'', 1000 + 7200)]) = ''tok1''"
    by (simp add: demo_env_def demo_tokens_def ann_def)
  from login_outcomes [of demo_db ?r1 demo_env 1000, THEN conjunct1, rule_format, OF h1]
    login_outcomes [of demo_db ?r2 demo_env 1000, THEN conjunct1, rule_format, OF h2]
    login_outcomes [of demo_db ?r3 demo_env 1000 ann "''salt-a''", THEN conjunct2, rule_format, OF h3]
    enc
  show ?thesis
    by simp
qed

text \<open>Registration followed by login, when the email is new.\<close>

lemma register_then_login:
  assumes "jwtSecret e \<noteq> []"
    and "\<forall>x \<in> set (users d). user_email x \<noteq> escape_text (body_email req)"
    and "body_password req = body_password_confirmation req"
  shows "fst (post_tokens e now req (snd (post_users salt req d))) =
           Sent (Response 200 (JObj [(''token'',
             JStr (jws_encode e (JWS (jwtSecret e)
               [(''userId'', user_seq d), (''iat'', now), (''exp'', now + 7200)])))]))"
  using assms(1) post_users_first_with_email [OF assms(2,3), of salt]
  by (simp add: post_tokens_def compareSync_hashSync toJWT_userId)

section \<open>Properties of the playlist and song handlers\<close>

text \<open>
  An authorized request: the identity is a stored user, and the route is its handler
  applied to that identity.
\<close>

lemma auth_Authorized:
  assumes "auth e now d req = Authorized u"
  shows "u \<in> set (users d) \<and> protected e now handler req d = handler u req d"
proof -
  from assms obtain k where "find (\<lambda>x. user_id x = k) (users d) = Some u"
    by (auto simp: auth_def User_findByPk_def unauthorized_def
        split: option.splits if_splits list.splits sum.splits)
  then have "u \<in> set (users d)"
    by (auto dest: find_SomeD)
  with assms show ?thesis
    by (simp add: protected_def)
qed

text \<open>Each handler, for the identity it is given.\<close>

lemma get_playlists_owned:
  assumes "wf_db d"
  shows "\<exists>ps. get_playlists u req d =
           (Sent (Response 200 (JArr (map (\<lambda>p. JObj (playlist_id_name p)) ps))), d) \<and>
         (\<forall>p \<in> set ps. p \<in> set (playlists d) \<and> playlist_userId p = Some (user_id u)) \<and>
         (\<forall>q \<in> set (playlists d). playlist_userId q \<noteq> Some (user_id u) \<longrightarrow>
            playlist_id q \<notin> playlist_id ` set ps)"
proof -
  let ?ps = "Playlist_findAll d (user_id u)"
  from assms have inj: "inj_on playlist_id (set (playlists d))"
    by (simp add: wf_db_def distinct_map)
  have own: "\<forall>p \<in> set ?ps. p \<in> set (playlists d) \<and> playlist_userId p = Some (user_id u)"
    by (simp add: Playlist_findAll_def)
  have "\<forall>q \<in> set (playlists d). playlist_userId q \<noteq> Some (user_id u) \<longrightarrow>
          playlist_id q \<notin> playlist_id ` set ?ps"
  proof (intro ballI impI notI)
    fix q assume q: "q \<in> set (playlists d)" "playlist_userId q \<noteq> Some (user_id u)"
      and "playlist_id q \<in> playlist_id ` set ?ps"
    then obtain p where p: "p \<in> set ?ps" "playlist_id q = playlist_id p" by blast
    with own have "p \<in> set (playlists d)" "playlist_userId p = Some (user_id u)" by auto
    with inj q p(2) show False by (auto dest: inj_onD)
  qed
  with own show ?thesis
    by (intro exI [of _ ?ps]) (simp add: get_playlists_def)
qed

lemma get_playlist_owned:
  "(\<exists>error. get_playlist u req d = (Rejected error, d)) \<or>
   get_playlist u req d = (Sent (Response 404 not_found), d) \<or>
   (\<exists>p ss. get_playlist u req d =
        (Sent (Response 200
           (JObj (playlist_id_name p @ [(''songs'', JArr (map song_attributes ss))]))), d) \<and>
      p \<in> set (playlists d) \<and> playlist_userId p = Some (user_id u) \<and>
      id_key (params_id req) = Inr (playlist_id p) \<and>
      (\<forall>s \<in> set ss. s \<in> set (songs d) \<and> song_playlistId s = Some (playlist_id p)))"
proof (cases "Playlist_findOne d (user_id u) (params_id req)")
  case (Inl error)
  then show ?thesis by (simp add: get_playlist_def)
next
  case (Inr found)
  show ?thesis
  proof (cases found)
    case None
    with Inr show ?thesis by (simp add: get_playlist_def)
  next
    case (Some p)
    with Inr have "p \<in> set (playlists d) \<and> playlist_userId p = Some (user_id u) \<and>
               id_key (params_id req) = Inr (playlist_id p)"
      by (auto simp: Playlist_findOne_def split: sum.splits dest: find_SomeD)
    moreover have "\<forall>s \<in> set (Song_findAll_playlist d (playlist_id p)).
                     s \<in> set (songs d) \<and> song_playlistId s = Some (playlist_id p)"
      by (simp add: Song_findAll_playlist_def)
    ultimately have "get_playlist u req d =
          (Sent (Response 200
             (JObj (playlist_id_name p @
                [(''songs'',
                  JArr (map song_attributes (Song_findAll_playlist d (playlist_id p))))]))), d) \<and>
        p \<in> set (playlists d) \<and> playlist_userId p = Some (user_id u) \<and>
        id_key (params_id req) = Inr (playlist_id p) \<and>
        (\<forall>s \<in> set (Song_findAll_playlist d (playlist_id p)).
            s \<in> set (songs d) \<and> song_playlistId s = Some (playlist_id p))"
      using Inr Some by (simp add: get_playlist_def)
    then show ?thesis
      by blast
  qed
qed

lemma post_playlists_owned:
  "\<exists>p d'. post_playlists u req d = (Sent (Response 201 (playlist_json p)), d') \<and>
           playlist_userId p = Some (user_id u) \<and> playlists d' = playlists d @ [p] \<and>
           songs d' = songs d \<and> users d' = users d"
  by (simp add: post_playlists_def Playlist_create_def Let_def)

lemma delete_playlist_owned:
  assumes "wf_db d"
  shows "\<exists>out d'. delete_playlist u req d = (out, d') \<and>
           ((\<exists>r. out = Sent r) \<or> (\<exists>error. out = Rejected error) \<and> d' = d) \<and>
           users d' = users d \<and>
           (\<forall>q \<in> set (playlists d). playlist_userId q \<noteq> Some (user_id u) \<longrightarrow>
              q \<in> set (playlists d') \<and>
              (\<forall>s \<in> set (songs d). song_playlistId s = Some (playlist_id q) \<longrightarrow>
                 s \<in> set (songs d')))"
proof (cases "id_key (params_id req)")
  case (Inl msg)
  then have "delete_playlist u req d = (Rejected (JsError ''SequelizeDatabaseError'' msg), d)"
    by (simp add: delete_playlist_def Playlist_destroy_def)
  then show ?thesis
    by simp
next
  case (Inr k)
  define hit where "hit = (\<lambda>p::playlist. playlist_userId p = Some (user_id u) \<and> playlist_id p = k)"
  define f where "f = (\<lambda>s::song. if song_playlistId s \<in> Some ` playlist_id ` set (filter hit (playlists d))
                 then s\<lparr>song_playlistId := None\<rparr> else s)"
  define d' where "d' = d\<lparr>playlists := filter (\<lambda>p. \<not> hit p) (playlists d), songs := map f (songs d)\<rparr>"
  from assms have inj: "inj_on playlist_id (set (playlists d))"
    by (simp add: wf_db_def distinct_map)
  have res: "\<exists>r. delete_playlist u req d = (Sent r, d')"
    using Inr by (simp add: delete_playlist_def Playlist_destroy_def Let_def hit_def f_def d'_def)
  have frame: "\<forall>q \<in> set (playlists d). playlist_userId q \<noteq> Some (user_id u) \<longrightarrow>
              q \<in> set (playlists d') \<and>
              (\<forall>s \<in> set (songs d). song_playlistId s = Some (playlist_id q) \<longrightarrow>
                 s \<in> set (songs d'))"
  proof (intro ballI impI conjI)
    fix q assume q: "q \<in> set (playlists d)" "playlist_userId q \<noteq> Some (user_id u)"
    then show "q \<in> set (playlists d')" by (simp add: d'_def hit_def)
    fix s assume s: "s \<in> set (songs d)" "song_playlistId s = Some (playlist_id q)"
    have "playlist_id q \<notin> playlist_id ` set (filter hit (playlists d))"
    proof
      assume "playlist_id q \<in> playlist_id ` set (filter hit (playlists d))"
      then obtain g where g: "g \<in> set (playlists d)" "hit g" "playlist_id q = playlist_id g"
        by auto
      from inj_onD [OF inj g(3) q(1) g(1)] have "q = g" .
      with g(2) q(2) show False by (simp add: hit_def)
    qed
    with s(2) have "f s = s" by (auto simp: f_def)
    with s(1) have "s \<in> f ` set (songs d)" by force
    then show "s \<in> set (songs d')" by (simp add: d'_def)
  qed
  from res obtain r where "delete_playlist u req d = (Sent r, d')" by blast
  moreover have "users d' = users d" by (simp add: d'_def)
  ultimately show ?thesis
    using frame by (intro exI [of _ "Sent r"] exI [of _ d']) simp
qed

lemma post_playlist_songs_owned:
  "(\<exists>error. post_playlist_songs u req d = (Rejected error, d)) \<or>
   post_playlist_songs u req d = (Sent (Response 422 not_found), d) \<or>
   (\<exists>p s d'. post_playlist_songs u req d = (Sent (Response 201 (song_json s)), d') \<and>
      p \<in> set (playlists d) \<and> playlist_userId p = Some (user_id u) \<and>
      id_key (params_id req) = Inr (playlist_id p) \<and>
      song_playlistId s = Some (playlist_id p) \<and>
      songs d' = songs d @ [s] \<and> playlists d' = playlists d \<and> users d' = users d)"
proof (cases "Playlist_findOne d (user_id u) (params_id req)")
  case (Inl error)
  then show ?thesis by (simp add: post_playlist_songs_def)
next
  case (Inr found)
  show ?thesis
  proof (cases found)
    case None
    with Inr show ?thesis by (simp add: post_playlist_songs_def)
  next
    case (Some p)
    with Inr have "p \<in> set (playlists d) \<and> playlist_userId p = Some (user_id u) \<and>
               id_key (params_id req) = Inr (playlist_id p)"
      by (auto simp: Playlist_findOne_def split: sum.splits dest: find_SomeD)
    with Inr Some show ?thesis
      by (auto simp: post_playlist_songs_def Song_create_def Let_def)
  qed
qed

text \<open>
  C1: for an authenticated request, with \<open>u\<close> the identity \<open>auth\<close> resolved, every read and
  every change of the playlist and song routes is scoped to \<open>u\<close>.
  \<^item> \<open>GET /playlists\<close> returns playlists of \<open>u\<close> only; no key of another user's playlist
    is among them.
  \<^item> \<open>GET /playlists/:id\<close> returns a playlist of \<open>u\<close>, the one \<open>:id\<close> is the key of, with
    the songs whose parent it is; or it answers 404; or the query is rejected; the
    database is as it was.
  \<^item> \<open>POST /playlists\<close> adds one playlist, owned by \<open>u\<close>.
  \<^item> \<open>DELETE /playlists/:id\<close> leaves every playlist of another user, and the songs of
    it, in place; when the query is rejected it leaves everything in place.
  \<^item> \<open>POST /playlists/:id/songs\<close> adds one song whose parent is a playlist of \<open>u\<close>, the
    one \<open>:id\<close> is the key of; or it answers 422, or the query is rejected, and nothing
    is changed.
\<close>

theorem ownership_scoping:
  assumes "auth e now d req = Authorized u" and "wf_db d"
  shows
    "(\<exists>ps. protected e now get_playlists req d =
           (Sent (Response 200 (JArr (map (\<lambda>p. JObj (playlist_id_name p)) ps))), d) \<and>
         (\<forall>p \<in> set ps. p \<in> set (playlists d) \<and> playlist_userId p = Some (user_id u)) \<and>
         (\<forall>q \<in> set (playlists d). playlist_userId q \<noteq> Some (user_id u) \<longrightarrow>
            playlist_id q \<notin> playlist_id ` set ps)) \<and>
     ((\<exists>error. protected e now get_playlist req d = (Rejected error, d)) \<or>
      protected e now get_playlist req d = (Sent (Response 404 not_found), d) \<or>
      (\<exists>p ss. protected e now get_playlist req d =
           (Sent (Response 200
              (JObj (playlist_id_name p @ [(''songs'', JArr (map song_attributes ss))]))), d) \<and>
         p \<in> set (playlists d) \<and> playlist_userId p = Some (user_id u) \<and>
         id_key (params_id req) = Inr (playlist_id p) \<and>
         (\<forall>s \<in> set ss. s \<in> set (songs d) \<and> song_playlistId s = Some (playlist_id p)))) \<and>
     (\<exists>p d'. protected e now post_playlists req d =
           (Sent (Response 201 (playlist_json p)), d') \<and>
         playlist_userId p = Some (user_id u) \<and> playlists d' = playlists d @ [p] \<and>
         songs d' = songs d \<and> users d' = users d) \<and>
     (\<exists>out d'. protected e now delete_playlist req d = (out, d') \<and>
         ((\<exists>r. out = Sent r) \<or> (\<exists>error. out = Rejected error) \<and> d' = d) \<and>
         users d' = users d \<and>
         (\<forall>q \<in> set (playlists d). playlist_userId q \<noteq> Some (user_id u) \<longrightarrow>
            q \<in> set (playlists d') \<and>
            (\<forall>s \<in> set (songs d). song_playlistId s = Some (playlist_id q) \<longrightarrow>
               s \<in> set (songs d')))) \<and>
     ((\<exists>error. protected e now post_playlist_songs req d = (Rejected error, d)) \<or>
      protected e now post_playlist_songs req d = (Sent (Response 422 not_found), d) \<or>
      (\<exists>p s d'. protected e now post_playlist_songs req d =
           (Sent (Response 201 (song_json s)), d') \<and>
         p \<in> set (playlists d) \<and> playlist_userId p = Some (user_id u) \<and>
         id_key (params_id req) = Inr (playlist_id p) \<and>
         song_playlistId s = Some (playlist_id p) \<and>
         songs d' = songs d @ [s] \<and> playlists d' = playlists d \<and> users d' = users d))"
  using get_playlists_owned [OF assms(2), of u req] get_playlist_owned [of u req d]
    post_playlists_owned [of u req d] delete_playlist_owned [OF assms(2), of u req]
    post_playlist_songs_owned [of u req d]
  unfolding auth_Authorized [OF assms(1), THEN conjunct2]
  by (intro conjI)

theorem ownership_scoping_witness:
    "(\<exists>ps. protected demo_env 1001 get_playlists ann_on_bob demo_db =
           (Sent (Response 200 (JArr (map (\<lambda>p. JObj (playlist_id_name p)) ps))), demo_db) \<and>
         (\<forall>p \<in> set ps. p \<in> set (playlists demo_db) \<and> playlist_userId p = Some (user_id ann)) \<and>
         (\<forall>q \<in> set (playlists demo_db). playlist_userId q \<noteq> Some (user_id ann) \<longrightarrow>
            playlist_id q \<notin> playlist_id ` set ps)) \<and>
     ((\<exists>error. protected demo_env 1001 get_playlist ann_on_bob demo_db = (Rejected error, demo_db)) \<or>
      protected demo_env 1001 get_playlist ann_on_bob demo_db = (Sent (Response 404 not_found), demo_db) \<or>
      (\<exists>p ss. protected demo_env 1001 get_playlist ann_on_bob demo_db =
           (Sent (Response 200
              (JObj (playlist_id_name p @ [(''songs'', JArr (map song_attributes ss))]))), demo_db) \<and>
         p \<in> set (playlists demo_db) \<and> playlist_userId p = Some (user_id ann) \<and>
         id_key (params_id ann_on_bob) = Inr (playlist_id p) \<and>
         (\<forall>s \<in> set ss. s \<in> set (songs demo_db) \<and> song_playlistId s = Some (playlist_id p)))) \<and>
     (\<exists>p d'. protected demo_env 1001 post_playlists ann_on_bob demo_db =
           (Sent (Response 201 (playlist_json p)), d') \<and>
         playlist_userId p = Some (user_id ann) \<and> playlists d' = playlists demo_db @ [p] \<and>
         songs d' = songs demo_db \<and> users d' = users demo_db) \<and>
     (\<exists>out d'. protected demo_env 1001 delete_playlist ann_on_bob demo_db = (out, d') \<and>
         ((\<exists>r. out = Sent r) \<or> (\<exists>error. out = Rejected error) \<and> d' = demo_db) \<and>
         users d' = users demo_db \<and>
         (\<forall>q \<in> set (playlists demo_db). playlist_userId q \<noteq> Some (user_id ann) \<longrightarrow>
            q \<in> set (playlists d') \<and>
            (\<forall>s \<in> set (songs demo_db). song_playlistId s = Some (playlist_id q) \<longrightarrow>
               s \<in> set (songs d')))) \<and>
     ((\<exists>error. protected demo_env 1001 post_playlist_songs ann_on_bob demo_db = (Rejected error, demo_db)) \<or>
      protected demo_env 1001 post_playlist_songs ann_on_bob demo_db = (Sent (Response 422 not_found), demo_db) \<or>
      (\<exists>p s d'. protected demo_env 1001 post_playlist_songs ann_on_bob demo_db =
           (Sent (Response 201 (song_json s)), d') \<and>
         p \<in> set (playlists demo_db) \<and> playlist_userId p = Some (user_id ann) \<and>
         id_key (params_id ann_on_bob) = Inr (playlist_id p) \<and>
         song_playlistId s = Some (playlist_id p) \<and>
         songs d' = songs demo_db @ [s] \<and> playlists d' = playlists demo_db \<and> users d' = users demo_db))"
proof -
  have a: "auth demo_env 1001 demo_db ann_on_bob = Authorized ann"
    by (simp add: auth_def ann_on_bob_def demo_req_def toData_def jwt_verify_def demo_env_def
        demo_tokens_def User_findByPk_def demo_db_def ann_def)
  have w: "wf_db demo_db"
    by (simp add: wf_db_def demo_db_def ann_def bob_def)
  show ?thesis
    by (rule ownership_scoping [OF a w])
qed

text \<open>An \<open>:id\<close> that is no \<open>INTEGER\<close> key: the query is rejected and nothing is changed.\<close>

lemma songs_id_rejected:
  assumes "auth e now d req = Authorized u" and "id_key (params_id req) = Inl msg"
  shows "protected e now post_playlist_songs req d =
           (Rejected (JsError ''SequelizeDatabaseError'' msg), d)"
  using auth_Authorized [OF assms(1)] assms(2)
  by (simp add: post_playlist_songs_def Playlist_findOne_def)




section \<open>The keys stay unique\<close>

text \<open>
  The assumption on the keys made above holds of the empty database and is kept by every
  handler that writes.
\<close>

lemma wf_empty_db: "wf_db empty_db"
  by (simp add: wf_db_def empty_db_def)

lemma wf_post_users: "wf_db d \<Longrightarrow> wf_db (snd (post_users salt req d))"
  by (fastforce simp: wf_db_def post_users_def User_create_def Let_def)

lemma wf_post_playlists: "wf_db d \<Longrightarrow> wf_db (snd (post_playlists u req d))"
  by (fastforce simp: wf_db_def post_playlists_def Playlist_create_def Let_def)

lemma wf_post_playlist_songs: "wf_db d \<Longrightarrow> wf_db (snd (post_playlist_songs u req d))"
  by (fastforce simp: wf_db_def post_playlist_songs_def Song_create_def Let_def
      split: option.splits sum.splits)

lemma wf_delete_playlist:
  assumes "wf_db d"
  shows "wf_db (snd (delete_playlist u req d))"
proof (cases "id_key (params_id req)")
  case (Inl msg)
  with assms show ?thesis
    by (simp add: delete_playlist_def Playlist_destroy_def)
next
  case (Inr k)
  define hit where "hit = (\<lambda>p::playlist. playlist_userId p = Some (user_id u) \<and> playlist_id p = k)"
  define f where "f = (\<lambda>s::song. if song_playlistId s \<in> Some ` playlist_id ` set (filter hit (playlists d))
                 then s\<lparr>song_playlistId := None\<rparr> else s)"
  have d': "snd (delete_playlist u req d) =
      d\<lparr>playlists := filter (\<lambda>p. \<not> hit p) (playlists d), songs := map f (songs d)\<rparr>"
    using Inr by (simp add: delete_playlist_def Playlist_destroy_def Let_def hit_def f_def)
  have keep: "\<And>s. song_id (f s) = song_id s"
    by (simp add: f_def)
  then have ids: "map song_id (map f (songs d)) = map song_id (songs d)"
    by simp
  from assms have "distinct (map playlist_id (filter (\<lambda>p. \<not> hit p) (playlists d)))"
    by (simp add: wf_db_def distinct_map_filter)
  moreover from assms keep have "\<forall>s \<in> set (map f (songs d)). song_id s < song_seq d"
    by (simp add: wf_db_def)
  moreover from assms have "distinct (map song_id (map f (songs d)))"
    by (simp only: ids) (simp add: wf_db_def)
  ultimately show ?thesis
    using assms unfolding d' wf_db_def by simp
qed

end
